theory Spec2Isabelle
  imports Complex_Main "HOL-Library.AList"
begin

section \<open>Python exceptions\<close>

text \<open>
  Every \<open>raise\<close> of the modelled functions, and every exception of a library call they
  make, is a value of this type; a function that can raise returns \<open>pyerr + 'a\<close>. A
  \<open>ValueError\<close> carries its message and a \<open>KeyError\<close> the missing key.
\<close>

datatype pyerr =
    TypeError
  | ValueError string
  | KeyError string
  | IndexError
  | AssertionError
  | AttributeError
  | NotImplementedError

section \<open>Gap detector: \<open>compare_and_find_gaps\<close>\<close>

text \<open>
  Times are the float values of the \<open>time\<close> coordinate. They are modelled as exact
  rationals: the function only compares them, subtracts neighbours and adds
  \<open>max_gap_length\<close>, and every concrete input below is a small integer, where float
  arithmetic is exact. A gap is the two-element list \<open>[start, end]\<close> of the source.
\<close>

type_synonym gap = "rat \<times> rat"

text \<open>
  \<open>np.argwhere(t.diff(dim).values > max_gap_length)\<close> followed by
  \<open>[[float(t[gp]), float(t[gp + 1])] for gp in ...]\<close>: the neighbouring pairs whose
  difference exceeds the threshold, in order.
\<close>

fun gap_times :: "rat \<Rightarrow> rat list \<Rightarrow> gap list" where
  "gap_times mg (a # b # ts) = (if b - a > mg then [(a, b)] else []) @ gap_times mg (b # ts)"
| "gap_times mg [a] = []"
| "gap_times mg [] = []"

text \<open>\<open>min()\<close> and \<open>max()\<close> of a coordinate; on an empty array both raise.\<close>

fun np_min :: "rat list \<Rightarrow> pyerr + rat" where
  "np_min [] = Inl (ValueError ''zero-size array to reduction operation minimum which has no identity'')"
| "np_min (x # xs) = Inr (fold min xs x)"

fun np_max :: "rat list \<Rightarrow> pyerr + rat" where
  "np_max [] = Inl (ValueError ''zero-size array to reduction operation maximum which has no identity'')"
| "np_max (x # xs) = Inr (fold max xs x)"

text \<open>
  The inner loop of \<open>_find_gaps_split\<close> for one data gap: the first existing gap that the
  data gap contains splits it in two (\<open>break\<close>); with none, the gap is kept.
\<close>

fun split_gap :: "gap \<Rightarrow> gap list \<Rightarrow> gap list" where
  "split_gap dgtime [] = [dgtime]"
| "split_gap dgtime (existtime # rest) =
     (if (fst dgtime \<le> fst existtime \<and> fst existtime \<le> snd dgtime) \<and>
         (fst dgtime \<le> snd existtime \<and> snd existtime \<le> snd dgtime)
      then [(fst dgtime, fst existtime), (snd existtime, snd dgtime)]
      else split_gap dgtime rest)"

definition find_gaps_split :: "gap list \<Rightarrow> gap list \<Rightarrow> gap list" where
  "find_gaps_split datagap_times existing_gap_times =
     concat (map (\<lambda>dgtime. split_gap dgtime existing_gap_times) datagap_times)"

text \<open>
  \<open>while splitting\<close>: split again until a pass changes nothing. The source gives no bound
  on the number of passes, so not returning is the value \<open>None\<close>.
\<close>

partial_function (option) split_loop :: "gap list \<Rightarrow> gap list \<Rightarrow> gap list option" where
  "split_loop datagap_times existing_gap_times =
     (let dg_split_gaps = find_gaps_split datagap_times existing_gap_times
      in if dg_split_gaps \<noteq> datagap_times
         then split_loop dg_split_gaps existing_gap_times
         else Some datagap_times)"

text \<open>
  The inner loop of the final pass for one data gap. \<open>continue\<close> goes on to the next
  existing gap; the two partial-overlap branches assign to \<open>dgtime[0]\<close> and \<open>dgtime[1]\<close>,
  and the changed gap is what the later existing gaps are compared with. The
  \<open>finalgaps.append(dgtime)\<close> after the inner loop runs for every data gap.
\<close>

fun adjust_gap :: "gap \<Rightarrow> gap list \<Rightarrow> gap" where
  "adjust_gap dgtime [] = dgtime"
| "adjust_gap dgtime (existtime # rest) =
     (if (fst existtime \<le> fst dgtime \<and> fst dgtime \<le> snd existtime) \<and>
         (fst existtime \<le> snd dgtime \<and> snd dgtime \<le> snd existtime)
      then adjust_gap dgtime rest
      else if fst existtime < fst dgtime \<and> fst dgtime < snd existtime
      then adjust_gap (snd existtime, snd dgtime) rest
      else if fst existtime < snd dgtime \<and> snd dgtime < snd existtime
      then adjust_gap (fst dgtime, fst existtime) rest
      else adjust_gap dgtime rest)"

text \<open>
  \<open>compare_and_find_gaps(source_dat, new_dat, max_gap_length)\<close> on the two time vectors.
  \<open>datagap_times.insert([...])\<close> calls \<open>list.insert\<close> with one argument, which raises
  \<open>TypeError\<close>; the trailing gap is added with \<open>append\<close>.
\<close>

definition compare_and_find_gaps ::
  "rat list \<Rightarrow> rat list \<Rightarrow> rat \<Rightarrow> (pyerr + gap list) option" where
  "compare_and_find_gaps source_times new_times max_gap_length =
     (let existing_gap_times = gap_times max_gap_length source_times;
          datagap_times = gap_times max_gap_length new_times
      in case np_min new_times of
           Inl e \<Rightarrow> Some (Inl e)
         | Inr new_min \<Rightarrow>
        (case np_min source_times of
           Inl e \<Rightarrow> Some (Inl e)
         | Inr source_min \<Rightarrow>
             if new_min > source_min + max_gap_length then Some (Inl TypeError)
             else
        (case np_max new_times of
           Inl e \<Rightarrow> Some (Inl e)
         | Inr new_max \<Rightarrow>
        (case np_max source_times of
           Inl e \<Rightarrow> Some (Inl e)
         | Inr source_max \<Rightarrow>
             (let datagap_times' =
                    (if new_max + max_gap_length < source_max
                     then datagap_times @ [(new_max, source_max)]
                     else datagap_times)
              in case split_loop datagap_times' existing_gap_times of
                   None \<Rightarrow> None
                 | Some split_times \<Rightarrow>
                     Some (Inr (map (\<lambda>dgtime. adjust_gap dgtime existing_gap_times) split_times)))))))"

section \<open>Ragged-beam helpers: \<open>stack_nan_array\<close> and \<open>reform_nan_array\<close>\<close>

text \<open>
  An element of a float array is NaN or a number; the numbers are left abstract, since
  both functions only test \<open>np.isnan\<close> and move elements.
\<close>

datatype 'a elem = NaN | Num 'a

fun isnan :: "'a elem \<Rightarrow> bool" where
  "isnan NaN = True"
| "isnan (Num x) = False"

text \<open>
  A two-dimensional \<open>(time, beam)\<close> array: its shape and its rows. The shape is kept
  beside the rows because an array of shape \<open>(0, b)\<close> has no row to read \<open>b\<close> from.
\<close>

record 'a dataarray2 =
  da_shape :: "nat \<times> nat"
  da_values :: "'a elem list list"

definition wf_dataarray2 :: "'a dataarray2 \<Rightarrow> bool" where
  "wf_dataarray2 a =
     (length (da_values a) = fst (da_shape a) \<and>
      list_all (\<lambda>r. length r = snd (da_shape a)) (da_values a))"

text \<open>
  \<open>np.where(~np.isnan(dataarray))\<close>: the row indices and the column indices of the
  elements that are not NaN, in row-major order.
\<close>

definition np_where_notnan :: "'a elem list list \<Rightarrow> nat list \<times> nat list" where
  "np_where_notnan rws =
     (let hits = concat (map (\<lambda>i. map (\<lambda>j. (i, j))
                   (filter (\<lambda>j. \<not> isnan (rws ! i ! j)) [0..<length (rws ! i)]))
                 [0..<length rws])
      in (map fst hits, map snd hits))"

text \<open>
  \<open>stack_nan_array\<close>: \<open>dataarray.stack(stck=('time', 'beam'))\<close> flattens the rows one after
  the other, and the boolean index keeps the elements that are not NaN.
\<close>

definition stack_nan_array :: "'a dataarray2 \<Rightarrow> (nat list \<times> nat list) \<times> 'a elem list" where
  "stack_nan_array dataarray =
     (let orig_idx = np_where_notnan (da_values dataarray);
          dataarray_stck = concat (da_values dataarray);
          dataarray_stck' = filter (\<lambda>v. \<not> isnan v) dataarray_stck
      in (orig_idx, dataarray_stck'))"

text \<open>
  numpy's rules for \<open>final_arr[orig_idx] = dataarray_stack\<close>: the two index arrays are
  broadcast against each other (equal lengths, or one of length one), an index outside
  the shape raises \<open>IndexError\<close>, and the values must have one element per indexed cell
  or be a single element, else \<open>ValueError\<close>. The cells are then assigned in order.
\<close>

definition broadcast_pair :: "'b list \<Rightarrow> 'c list \<Rightarrow> ('b \<times> 'c) list option" where
  "broadcast_pair xs ys =
     (if length xs = length ys then Some (zip xs ys)
      else if length xs = 1 then Some (map (\<lambda>y. (hd xs, y)) ys)
      else if length ys = 1 then Some (map (\<lambda>x. (x, hd ys)) xs)
      else None)"

definition broadcast_to :: "nat \<Rightarrow> 'b list \<Rightarrow> 'b list option" where
  "broadcast_to n vs =
     (if length vs = n then Some vs
      else if length vs = 1 then Some (replicate n (hd vs))
      else None)"

definition set_cell :: "(nat \<times> nat) \<times> 'a \<Rightarrow> 'a list list \<Rightarrow> 'a list list" where
  "set_cell a arr = arr[fst (fst a) := (arr ! fst (fst a))[snd (fst a) := snd a]]"

text \<open>
  \<open>reform_nan_array\<close>: \<open>np.empty(orig_shape)\<close> filled with NaN, then the stacked values
  written at \<open>orig_idx\<close>. The coordinates and dimension names are passed through to the
  \<open>DataArray\<close> constructor and play no part in the values.
\<close>

definition reform_nan_array ::
  "'a elem list \<Rightarrow> nat list \<times> nat list \<Rightarrow> nat \<times> nat \<Rightarrow> pyerr + 'a dataarray2" where
  "reform_nan_array dataarray_stack orig_idx orig_shape =
     (let final_arr = replicate (fst orig_shape) (replicate (snd orig_shape) NaN)
      in case broadcast_pair (fst orig_idx) (snd orig_idx) of
           None \<Rightarrow> Inl IndexError
         | Some cells \<Rightarrow>
             if \<not> list_all (\<lambda>c. fst c < fst orig_shape \<and> snd c < snd orig_shape) cells
             then Inl IndexError
             else
               (case broadcast_to (length cells) dataarray_stack of
                  None \<Rightarrow> Inl (ValueError ''shape mismatch: value array could not be broadcast to indexing result'')
                | Some vs \<Rightarrow>
                    Inr \<lparr>da_shape = orig_shape,
                         da_values = fold set_cell (zip cells vs) final_arr\<rparr>))"

text \<open>The cells that \<open>np.where\<close> reports, as pairs (used in the proofs).\<close>

definition hits :: "'a elem list list \<Rightarrow> (nat \<times> nat) list" where
  "hits rws = concat (map (\<lambda>i. map (\<lambda>j. (i, j))
                   (filter (\<lambda>j. \<not> isnan (rws ! i ! j)) [0..<length (rws ! i)]))
                 [0..<length rws])"

section \<open>The zarr store\<close>

subsection \<open>Element types and values\<close>

text \<open>
  A numpy dtype, as far as the writer tells dtypes apart: \<open>np.issubdtype(d, np.floating)\<close>
  holds for \<open>FloatT w\<close>, \<open>np.issubdtype(d, np.integer)\<close> for the signed \<open>IntT w\<close> and
  the unsigned \<open>UIntT w\<close> of \<open>w\<close> bits, and neither for the text type \<open>TextT\<close>.
\<close>

datatype dtype = FloatT nat | IntT nat | UIntT nat | TextT

fun is_floating :: "dtype \<Rightarrow> bool" where
  "is_floating (FloatT w) = True"
| "is_floating d = False"

fun is_integer :: "dtype \<Rightarrow> bool" where
  "is_integer (IntT w) = True"
| "is_integer (UIntT w) = True"
| "is_integer d = False"

text \<open>One element of an array: a float (NaN or a number), an integer or a string.\<close>

datatype scalar = FloatV "rat elem" | IntV int | StrV string

text \<open>
  The conversion numpy makes when a value is stored in an array of a dtype
  (\<open>astype\<close> with its default unsafe casting): an integer is reduced modulo \<open>2 ^ w\<close>, into
  the signed range for a signed dtype; an integer stored as a float is that number. NaN
  stays NaN. The rounding of a finite float to the width, and conversions between text
  and numbers, are not modelled: the value is kept.
\<close>

definition wrap_signed :: "nat \<Rightarrow> int \<Rightarrow> int" where
  "wrap_signed w i = (i + 2 ^ (w - 1)) mod 2 ^ w - 2 ^ (w - 1)"

fun astype :: "dtype \<Rightarrow> scalar \<Rightarrow> scalar" where
  "astype (IntT w) (IntV i) = IntV (wrap_signed w i)"
| "astype (UIntT w) (IntV i) = IntV (i mod 2 ^ w)"
| "astype (FloatT w) (IntV i) = FloatV (Num (of_int i))"
| "astype d v = v"

text \<open>Comparison of two elements as numpy compares them: NaN compares false with all.\<close>

fun numval :: "scalar \<Rightarrow> rat option" where
  "numval (FloatV (Num r)) = Some r"
| "numval (FloatV NaN) = None"
| "numval (IntV i) = Some (of_int i)"
| "numval (StrV s) = None"

definition np_le :: "scalar \<Rightarrow> scalar \<Rightarrow> bool" where
  "np_le a b = (case (numval a, numval b) of (Some x, Some y) \<Rightarrow> x \<le> y | _ \<Rightarrow> False)"

definition np_eq :: "scalar \<Rightarrow> scalar \<Rightarrow> bool" where
  "np_eq a b =
     (case (a, b) of
        (StrV s, StrV t) \<Rightarrow> s = t
      | _ \<Rightarrow> (case (numval a, numval b) of (Some x, Some y) \<Rightarrow> x = y | _ \<Rightarrow> False))"

fun is_text :: "scalar \<Rightarrow> bool" where
  "is_text (StrV s) = True"
| "is_text v = False"

text \<open>
  \<open>np.min\<close> and \<open>np.max\<close> over all elements of an array: an empty array raises
  \<open>ValueError\<close>, a text array \<open>TypeError\<close>, and a NaN among the elements makes the result
  NaN.
\<close>

definition np_amin :: "scalar list \<Rightarrow> pyerr + scalar" where
  "np_amin vs =
     (case vs of
        [] \<Rightarrow> Inl (ValueError ''zero-size array to reduction operation minimum which has no identity'')
      | v # rest \<Rightarrow>
          if list_ex is_text vs then Inl TypeError
          else if list_ex (\<lambda>x. x = FloatV NaN) vs then Inr (FloatV NaN)
          else Inr (fold (\<lambda>x m. if np_le x m then x else m) rest v))"

definition np_amax :: "scalar list \<Rightarrow> pyerr + scalar" where
  "np_amax vs =
     (case vs of
        [] \<Rightarrow> Inl (ValueError ''zero-size array to reduction operation maximum which has no identity'')
      | v # rest \<Rightarrow>
          if list_ex is_text vs then Inl TypeError
          else if list_ex (\<lambda>x. x = FloatV NaN) vs then Inr (FloatV NaN)
          else Inr (fold (\<lambda>x m. if np_le m x then x else m) rest v))"

subsection \<open>Arrays, datasets and the group\<close>

text \<open>
  An index is one position per dimension. The contents of an array are a function from
  indices to elements; only the values at indices inside the shape are part of the array.
  \<open>indices_of\<close> lists the indices of a shape in row-major order.
\<close>

definition in_bounds :: "nat list \<Rightarrow> nat list \<Rightarrow> bool" where
  "in_bounds shp idx = list_all2 (\<lambda>i n. i < n) idx shp"

fun indices_of :: "nat list \<Rightarrow> nat list list" where
  "indices_of [] = [[]]"
| "indices_of (n # ns) = concat (map (\<lambda>i. map (\<lambda>idx. i # idx) (indices_of ns)) [0..<n])"

text \<open>
  A zarr array of the group: shape, chunk shape, dtype, fill value, the
  \<open>_ARRAY_DIMENSIONS\<close> attribute and the contents.
\<close>

record zarray =
  z_shape :: "nat list"
  z_chunks :: "nat list"
  z_dtype :: dtype
  z_fill_value :: "scalar option"
  z_array_dimensions :: "string list option"
  z_data :: "nat list \<Rightarrow> scalar"

definition z_values :: "zarray \<Rightarrow> scalar list" where
  "z_values a = map (z_data a) (indices_of (z_shape a))"

definition z_size :: "zarray \<Rightarrow> nat" where
  "z_size a = prod_list (z_shape a)"

text \<open>A variable of an xarray \<open>Dataset\<close> (a batch): dimension names, shape, dtype, values.\<close>

record xvariable =
  x_dims :: "string list"
  x_shape :: "nat list"
  x_dtype :: dtype
  x_values :: "nat list \<Rightarrow> scalar"

type_synonym dataset = "(string \<times> xvariable) list"

text \<open>
  The group: its arrays by name and its attributes. The attributes are of a type left
  open; the writer only hands them to the attribute merger.
\<close>

record 'a zgroup =
  rg_arrays :: "(string \<times> zarray) list"
  rg_attrs :: 'a

definition array_keys :: "'a zgroup \<Rightarrow> string list" where
  "array_keys g = map fst (rg_arrays g)"

definition get_array :: "'a zgroup \<Rightarrow> string \<Rightarrow> pyerr + zarray" where
  "get_array g name = (case map_of (rg_arrays g) name of None \<Rightarrow> Inl (KeyError name) | Some a \<Rightarrow> Inr a)"

definition put_array :: "string \<Rightarrow> zarray \<Rightarrow> 'a zgroup \<Rightarrow> 'a zgroup" where
  "put_array name a g = g\<lparr>rg_arrays := AList.update name a (rg_arrays g)\<rparr>"

subsection \<open>Sequencing of steps that can raise\<close>

text \<open>
  A step on a state returns the exception it raised, if any, and the state it left:
  what was written before a \<open>raise\<close> stays written.
\<close>

definition and_then :: "pyerr option \<times> 's \<Rightarrow> ('s \<Rightarrow> pyerr option \<times> 's) \<Rightarrow> pyerr option \<times> 's" where
  "and_then r f = (case r of (Some e, s) \<Rightarrow> (Some e, s) | (None, s) \<Rightarrow> f s)"

fun for_each :: "('k \<Rightarrow> 's \<Rightarrow> pyerr option \<times> 's) \<Rightarrow> 'k list \<Rightarrow> 's \<Rightarrow> pyerr option \<times> 's" where
  "for_each body [] s = (None, s)"
| "for_each body (k # ks) s =
     (case body k s of (Some e, s') \<Rightarrow> (Some e, s') | (None, s') \<Rightarrow> for_each body ks s')"

text \<open>One operation on the array of a name: \<open>group[name].op(...)\<close>.\<close>

definition on_array :: "string \<Rightarrow> (zarray \<Rightarrow> pyerr + zarray) \<Rightarrow> 'a zgroup \<Rightarrow> pyerr option \<times> 'a zgroup" where
  "on_array name op g =
     (case get_array g name of
        Inl e \<Rightarrow> (Some e, g)
      | Inr a \<Rightarrow> (case op a of Inl e \<Rightarrow> (Some e, g) | Inr a' \<Rightarrow> (None, put_array name a' g)))"

subsection \<open>zarr's array operations\<close>

text \<open>
  \<open>Array.resize(new_shape)\<close>: the rank must stay; a \<open>None\<close> in the new shape keeps the old
  length. Cells outside the old shape read as the fill value afterwards; with no fill
  value they are uninitialised, and the contents function is left as it is there.
\<close>

definition zarr_resize :: "nat option list \<Rightarrow> zarray \<Rightarrow> pyerr + zarray" where
  "zarr_resize new_shape a =
     (if length new_shape \<noteq> length (z_shape a)
      then Inl (ValueError ''new shape must have same number of dimensions'')
      else Inr (a\<lparr>z_shape := map2 (\<lambda>s n. case n of None \<Rightarrow> s | Some m \<Rightarrow> m) (z_shape a) new_shape,
                  z_data := (case z_fill_value a of
                               None \<Rightarrow> z_data a
                             | Some f \<Rightarrow> (\<lambda>idx. if in_bounds (z_shape a) idx then z_data a idx else f))\<rparr>))"

text \<open>
  \<open>a[sel] = v\<close> for a tuple of slices \<open>slice(start, stop)\<close>: more slices than dimensions
  raise \<open>IndexError\<close>, missing ones select the whole dimension, each slice is clipped to
  the length of its dimension, and the shape of \<open>v\<close> must be the shape selected. The
  values are converted to the array's dtype.
\<close>

type_synonym slice = "nat \<times> nat"

definition clip_slice :: "nat \<Rightarrow> slice \<Rightarrow> slice" where
  "clip_slice n sl = (min (fst sl) n, min (snd sl) n)"

definition in_selection :: "slice list \<Rightarrow> nat list \<Rightarrow> bool" where
  "in_selection sel idx = list_all2 (\<lambda>i sl. fst sl \<le> i \<and> i < snd sl) idx sel"

definition zarr_setitem :: "slice list \<Rightarrow> nat list \<Rightarrow> (nat list \<Rightarrow> scalar) \<Rightarrow> zarray \<Rightarrow> pyerr + zarray" where
  "zarr_setitem sel vshape vdata a =
     (if length (z_shape a) < length sel then Inl IndexError
      else
        (let full = sel @ map (\<lambda>n. (0, n)) (drop (length sel) (z_shape a));
             clipped = map2 clip_slice (z_shape a) full;
             sel_shape = map (\<lambda>sl. snd sl - fst sl) clipped
         in if vshape \<noteq> sel_shape
            then Inl (ValueError ''parameter value: array has the wrong shape'')
            else Inr (a\<lparr>z_data := (\<lambda>idx. if in_selection clipped idx
                                           then astype (z_dtype a) (vdata (map2 (\<lambda>i sl. i - fst sl) idx clipped))
                                           else z_data a idx)\<rparr>)))"

text \<open>
  \<open>group.create_dataset(name, shape, chunks, dtype, fill_value)\<close>: a new array, every
  cell the fill value (uninitialised, hence unspecified, when there is none); a name in
  use raises. (The validation of the chunk shape is not modelled: chunks do not change
  what an array holds.)
\<close>

definition create_dataset ::
  "string \<Rightarrow> nat list \<Rightarrow> nat list \<Rightarrow> dtype \<Rightarrow> scalar option \<Rightarrow> 'a zgroup \<Rightarrow> pyerr option \<times> 'a zgroup" where
  "create_dataset name shp chunks dt fill g =
     (if name \<in> set (array_keys g) then (Some (ValueError ''path contains an array''), g)
      else (None, put_array name
              \<lparr>z_shape = shp, z_chunks = chunks, z_dtype = dt,
               z_fill_value = map_option (astype dt) fill,
               z_array_dimensions = None,
               z_data = (\<lambda>idx. case fill of None \<Rightarrow> undefined | Some f \<Rightarrow> astype dt f)\<rparr> g))"

definition set_array_dimensions :: "string list \<Rightarrow> zarray \<Rightarrow> pyerr + zarray" where
  "set_array_dimensions dims a = Inr (a\<lparr>z_array_dimensions := Some dims\<rparr>)"

section \<open>The writer: class \<open>ZarrWrite\<close>\<close>

text \<open>
  The fields of a \<open>ZarrWrite\<close> object. \<open>rootgroup\<close> is the opened store: the state the
  methods change.
\<close>

record 'a zarrwrite =
  zarr_path :: string
  desired_chunk_shape :: "(string \<times> nat list) list"
  append_dim :: string
  expand_dim :: string
  float_no_data_value :: scalar
  int_no_data_value :: scalar
  rootgroup :: "'a zgroup"
  zarr_array_names :: "string list"

definition get_array_names :: "'a zarrwrite \<Rightarrow> 'a zarrwrite" where
  "get_array_names zw = zw\<lparr>zarr_array_names := array_keys (rootgroup zw)\<rparr>"

text \<open>
  \<open>__init__\<close> followed by \<open>open\<close>, with the default arguments \<open>expand_dim='beam'\<close>,
  \<open>float_no_data_value=np.nan\<close> and \<open>int_no_data_value=999\<close> that
  \<open>_distrib_zarr_write_convenience\<close> leaves in place. The group is what \<open>zarr.open\<close> finds
  at the path (the empty group when there is none).
\<close>

definition ZarrWrite_init ::
  "string \<Rightarrow> (string \<times> nat list) list \<Rightarrow> string \<Rightarrow> 'a zgroup \<Rightarrow> 'a zarrwrite" where
  "ZarrWrite_init path chunk_shape app_dim g =
     get_array_names
       \<lparr>zarr_path = path, desired_chunk_shape = chunk_shape, append_dim = app_dim,
        expand_dim = ''beam'', float_no_data_value = FloatV NaN, int_no_data_value = IntV 999,
        rootgroup = g, zarr_array_names = []\<rparr>"

definition on_rootgroup ::
  "('a zgroup \<Rightarrow> pyerr option \<times> 'a zgroup) \<Rightarrow> 'a zarrwrite \<Rightarrow> pyerr option \<times> 'a zarrwrite" where
  "on_rootgroup step zw = (case step (rootgroup zw) of (r, g) \<Rightarrow> (r, zw\<lparr>rootgroup := g\<rparr>))"

text \<open>
  The first element and the last element of a one-dimensional variable, as
  \<open>xarr[dim][0]\<close> and \<open>xarr[dim][-1]\<close> give them. A variable of another rank is not a
  coordinate the writer is given; the truth value of the comparison it would enter is
  an error there.
\<close>

definition x_first :: "xvariable \<Rightarrow> pyerr + scalar" where
  "x_first v =
     (case x_shape v of
        [] \<Rightarrow> Inl IndexError
      | [n] \<Rightarrow> if n = 0 then Inl IndexError else Inr (x_values v [0])
      | _ \<Rightarrow> Inl (ValueError ''The truth value of an array with more than one element is ambiguous''))"

definition x_last :: "xvariable \<Rightarrow> pyerr + scalar" where
  "x_last v =
     (case x_shape v of
        [] \<Rightarrow> Inl IndexError
      | [n] \<Rightarrow> if n = 0 then Inl IndexError else Inr (x_values v [n - 1])
      | _ \<Rightarrow> Inl (ValueError ''The truth value of an array with more than one element is ambiguous''))"

text \<open>
  \<open>_check_merge\<close>: the first time of the batch is at least the least time of the group and
  the last time of the batch at most the greatest. The second comparison is evaluated
  only when the first holds (\<open>and\<close>).
\<close>

definition check_merge :: "'a zarrwrite \<Rightarrow> dataset \<Rightarrow> pyerr + bool" where
  "check_merge zw input_xarr =
     (case map_of (rg_arrays (rootgroup zw)) (append_dim zw) of
        None \<Rightarrow> Inr False
      | Some root_time \<Rightarrow>
          (case map_of input_xarr (append_dim zw) of
             None \<Rightarrow> Inl (KeyError (append_dim zw))
           | Some t \<Rightarrow>
               (case x_first t of
                  Inl e \<Rightarrow> Inl e
                | Inr first_time \<Rightarrow>
                    (case np_amin (z_values root_time) of
                       Inl e \<Rightarrow> Inl e
                     | Inr least \<Rightarrow>
                         if np_le least first_time
                         then (case x_last t of
                                 Inl e \<Rightarrow> Inl e
                               | Inr last_time \<Rightarrow>
                                   (case np_amax (z_values root_time) of
                                      Inl e \<Rightarrow> Inl e
                                    | Inr greatest \<Rightarrow> Inr (np_le last_time greatest)))
                         else Inr False))))"

text \<open>\<open>_check_fix_rootgroup_expand_dim\<close>.\<close>

definition check_fix_rootgroup_expand_dim :: "'a zarrwrite \<Rightarrow> dataset \<Rightarrow> pyerr + bool" where
  "check_fix_rootgroup_expand_dim zw xarr =
     (case (map_of (rg_arrays (rootgroup zw)) (expand_dim zw), map_of xarr (expand_dim zw)) of
        (Some root_expand, Some x_expand) \<Rightarrow>
          (case x_shape x_expand of
             [] \<Rightarrow> Inl IndexError
           | n # ns \<Rightarrow> Inr (z_size root_expand < n))
      | _ \<Rightarrow> Inr False)"

text \<open>\<open>_get_arr_nodatavalue\<close>.\<close>

definition get_arr_nodatavalue :: "'a zarrwrite \<Rightarrow> dtype \<Rightarrow> scalar" where
  "get_arr_nodatavalue zw arr_dtype =
     (if is_floating arr_dtype then float_no_data_value zw
      else if is_integer arr_dtype then int_no_data_value zw
      else StrV [])"

text \<open>
  \<open>_inflate_expand_dim\<close>: \<open>np.full\<close> of the missing columns (three-dimensional when the
  input is, two-dimensional otherwise), joined to the input by
  \<open>np.concatenate(..., axis=1)\<close>. Reading \<open>shape[1]\<close> of an array of rank below two raises
  \<open>IndexError\<close>; a negative column count raises in \<open>np.full\<close>; an input of rank above three
  meets a two-dimensional block in \<open>np.concatenate\<close>, which raises. The result is the new
  array as numpy holds it: its shape and its values.
\<close>

definition inflate_expand_dim ::
  "zarray \<Rightarrow> nat \<Rightarrow> scalar \<Rightarrow> pyerr + nat list \<times> (nat list \<Rightarrow> scalar)" where
  "inflate_expand_dim input_arr expand_dim_size nodata =
     (let shp = z_shape input_arr
      in if length shp < 2 then Inl IndexError
         else if expand_dim_size < shp ! 1 then Inl (ValueError ''negative dimensions are not allowed'')
         else if length shp \<noteq> 3 \<and> length shp \<noteq> 2
         then Inl (ValueError ''all the input arrays must have same number of dimensions'')
         else Inr (shp[1 := expand_dim_size],
                   (\<lambda>idx. if idx ! 1 < shp ! 1 then z_data input_arr idx else nodata)))"

text \<open>
  The body of the loop of \<open>fix_rootgroup_expand_dim\<close> for one array name: what \<open>newdat\<close>
  and \<open>newshp\<close> are, then \<open>resize\<close> and the assignment of the whole array.
\<close>

definition fix_var ::
  "'a zarrwrite \<Rightarrow> dataset \<Rightarrow> nat \<Rightarrow> string \<Rightarrow> 'a zgroup \<Rightarrow> pyerr option \<times> 'a zgroup" where
  "fix_var zw xarr curr_expand_dim_size var g =
     (if var = expand_dim zw then
        (case map_of xarr (expand_dim zw) of
           None \<Rightarrow> (Some (KeyError (expand_dim zw)), g)
         | Some x_expand \<Rightarrow>
             (case x_shape x_expand of
                [] \<Rightarrow> (Some IndexError, g)
              | n # ns \<Rightarrow>
                  and_then (on_array var (zarr_resize (map Some (x_shape x_expand))) g)
                    (on_array var (zarr_setitem [] [n] (\<lambda>idx. IntV (int (hd idx)))))))
      else
        (case get_array g var of
           Inl e \<Rightarrow> (Some e, g)
         | Inr a \<Rightarrow>
             if 2 \<le> length (z_shape a) \<and> z_shape a ! 1 = curr_expand_dim_size then
               (case map_of xarr (expand_dim zw) of
                  None \<Rightarrow> (Some (KeyError (expand_dim zw)), g)
                | Some x_expand \<Rightarrow>
                    (case x_shape x_expand of
                       [] \<Rightarrow> (Some IndexError, g)
                     | n # ns \<Rightarrow>
                         (case inflate_expand_dim a n (get_arr_nodatavalue zw (z_dtype a)) of
                            Inl e \<Rightarrow> (Some e, g)
                          | Inr newdat \<Rightarrow>
                              and_then (on_array var (zarr_resize (map Some ((z_shape a)[1 := n]))) g)
                                (on_array var (zarr_setitem [] (fst newdat) (snd newdat))))))
             else (None, g)))"

text \<open>\<open>fix_rootgroup_expand_dim\<close>: the loop over the array names read when the store was opened.\<close>

definition fix_rootgroup_expand_dim :: "dataset \<Rightarrow> 'a zarrwrite \<Rightarrow> pyerr option \<times> 'a zarrwrite" where
  "fix_rootgroup_expand_dim xarr zw =
     (case get_array (rootgroup zw) (expand_dim zw) of
        Inl e \<Rightarrow> (Some e, zw)
      | Inr root_expand \<Rightarrow>
          on_rootgroup (for_each (fix_var zw xarr (z_size root_expand)) (zarr_array_names zw)) zw)"

text \<open>\<open>correct_rootgroup_dims\<close>.\<close>

definition correct_rootgroup_dims :: "dataset \<Rightarrow> 'a zarrwrite \<Rightarrow> pyerr option \<times> 'a zarrwrite" where
  "correct_rootgroup_dims xarr zw =
     (case check_fix_rootgroup_expand_dim zw xarr of
        Inl e \<Rightarrow> (Some e, zw)
      | Inr True \<Rightarrow> fix_rootgroup_expand_dim xarr zw
      | Inr False \<Rightarrow> (None, zw))"

text \<open>
  \<open>_my_xarr_to_zarr_build_arraydimensions\<close>: the variables that have dimensions and a shape,
  in the order of the dataset. (The dictionary's values \<open>[dims, shape, chunks]\<close> are read off
  the variable.)
\<close>

definition build_arraydimensions :: "dataset \<Rightarrow> (string \<times> xvariable) list" where
  "build_arraydimensions xarr = filter (\<lambda>entry. x_dims (snd entry) \<noteq> [] \<and> x_shape (snd entry) \<noteq> []) xarr"

text \<open>\<open>xs.index(x)\<close>: the first position of \<open>x\<close>, or nothing (where Python raises).\<close>

fun index_of :: "'b \<Rightarrow> 'b list \<Rightarrow> nat option" where
  "index_of x [] = None"
| "index_of x (y # ys) = (if x = y then Some 0 else map_option Suc (index_of x ys))"

text \<open>
  The attribute merger is a parameter of the writer: it is given the new attributes and
  the attributes of the group, and returns the exception it raised, if any, and the
  attributes it left. \<open>write_attributes\<close> does nothing when \<open>attrs\<close> is \<open>None\<close>.
\<close>

definition write_attributes ::
  "('b \<Rightarrow> 'a \<Rightarrow> pyerr option \<times> 'a) \<Rightarrow> 'b option \<Rightarrow> 'a zarrwrite \<Rightarrow> pyerr option \<times> 'a zarrwrite" where
  "write_attributes merge_attrs attrs zw =
     (case attrs of
        None \<Rightarrow> (None, zw)
      | Some new_attrs \<Rightarrow>
          on_rootgroup (\<lambda>g. case merge_attrs new_attrs (rg_attrs g) of (r, merged) \<Rightarrow> (r, g\<lparr>rg_attrs := merged\<rparr>)) zw)"

text \<open>
  \<open>_write_determine_shape\<close>: the axis of the append dimension, the length of the batch
  along it, and the shape the array is to be resized to, where \<open>finalsize\<close> stands at every
  position \<open>x\<close> of the shape with \<open>shape.index(x) == timaxis\<close>. \<open>finalsize\<close> may be \<open>None\<close>.
\<close>

definition write_determine_shape ::
  "'a zarrwrite \<Rightarrow> string \<Rightarrow> xvariable \<Rightarrow> nat option \<Rightarrow> pyerr + nat option \<times> nat option \<times> nat option list" where
  "write_determine_shape zw var v finalsize =
     (if var \<in> {''beam'', ''xyz''} then Inr (None, None, map Some (x_shape v))
      else
        (case index_of (append_dim zw) (x_dims v) of
           None \<Rightarrow> Inl (ValueError ''tuple.index(x): x not in tuple'')
         | Some timaxis \<Rightarrow>
             if length (x_shape v) \<le> timaxis then Inl IndexError
             else Inr (Some timaxis, Some (x_shape v ! timaxis),
                       map (\<lambda>x. if index_of x (x_shape v) = Some timaxis then finalsize else Some x)
                         (x_shape v))))"

text \<open>\<open>_write_adjust_max_beams\<close>: position 1 of the shape becomes the length of the group's \<open>beam\<close> array.\<close>

definition write_adjust_max_beams :: "'a zgroup \<Rightarrow> nat option list \<Rightarrow> pyerr + nat option list" where
  "write_adjust_max_beams g startingshp =
     (if 2 \<le> length startingshp then
        (case get_array g ''beam'' of
           Inl e \<Rightarrow> Inl e
         | Inr beam_arr \<Rightarrow>
             (case z_shape beam_arr of
                [] \<Rightarrow> Inl IndexError
              | current_max_beams # ns \<Rightarrow> Inr (startingshp[1 := Some current_max_beams])))
      else Inr startingshp)"

text \<open>
  \<open>_write_existing_rootgroup\<close>. \<open>startingshp\<close> is \<open>None\<close> when the caller passes \<open>None\<close>
  (no \<open>finalsize\<close>). \<open>timlength\<close> and \<open>timaxis\<close> are \<open>None\<close> for \<open>beam\<close> and \<open>xyz\<close>, which do not
  reach this function; adding \<open>None\<close> to the start index would raise \<open>TypeError\<close>.
\<close>

definition write_existing_rootgroup ::
  "xvariable \<Rightarrow> nat \<times> nat \<Rightarrow> string \<Rightarrow> nat list \<Rightarrow> nat option \<Rightarrow> nat option \<Rightarrow>
   nat option list option \<Rightarrow> 'a zgroup \<Rightarrow> pyerr option \<times> 'a zgroup" where
  "write_existing_rootgroup v data_loc_copy var chunksize timlength timaxis startingshp g =
     (case (timlength, timaxis) of
        (Some tlen, Some tax) \<Rightarrow>
          (let stop = (if int tlen \<noteq> int (snd data_loc_copy) - int (fst data_loc_copy)
                       then fst data_loc_copy + tlen else snd data_loc_copy);
               chunk_time_range = (fst data_loc_copy, stop);
               chunk_idx = map (\<lambda>i. if index_of i (x_shape v) = Some tax then chunk_time_range else (0, i))
                             (x_shape v)
           in and_then
                (case startingshp of
                   None \<Rightarrow> (None, g)
                 | Some shp \<Rightarrow>
                     if var \<noteq> ''tx'' then
                       (case write_adjust_max_beams g shp of
                          Inl e \<Rightarrow> (Some e, g)
                        | Inr shp' \<Rightarrow> on_array var (zarr_resize shp') g)
                     else (None, g))
                (on_array var (zarr_setitem chunk_idx (x_shape v) (x_values v))))
      | _ \<Rightarrow> (Some TypeError, g))"

text \<open>\<open>_write_new_dataset_rootgroup\<close>.\<close>

definition write_new_dataset_rootgroup ::
  "'a zarrwrite \<Rightarrow> xvariable \<Rightarrow> string \<Rightarrow> nat list \<Rightarrow> nat option list \<Rightarrow> 'a zgroup \<Rightarrow> pyerr option \<times> 'a zgroup" where
  "write_new_dataset_rootgroup zw v var chunksize startingshp g =
     and_then
       (create_dataset var (x_shape v) chunksize (x_dtype v)
          (Some (get_arr_nodatavalue zw (x_dtype v))) g)
       (\<lambda>g'. and_then (on_array var (zarr_setitem [] (x_shape v) (x_values v)) g')
                (on_array var (zarr_resize startingshp)))"

text \<open>
  The body of the loop of \<open>write_to_zarr\<close> for one variable of the batch. The fields of
  \<open>zw\<close> it reads (\<open>zarr_array_names\<close>, \<open>desired_chunk_shape\<close>, the dimension names, the
  no-data values) do not change during the loop; the group does.
\<close>

definition write_var ::
  "'a zarrwrite \<Rightarrow> nat \<times> nat \<Rightarrow> nat option \<Rightarrow> bool \<Rightarrow> string \<times> xvariable \<Rightarrow> 'a zgroup \<Rightarrow>
   pyerr option \<times> 'a zgroup" where
  "write_var zw dataloc finalsize merge entry g =
     (let var = fst entry; v = snd entry;
          already_written = (var \<in> set (zarr_array_names zw))
      in if merge \<and> var \<in> {append_dim zw, ''beam''} then (None, g)
         else if var \<in> {''beam'', ''xyz''} \<and> already_written then (None, g)
         else
           (case write_determine_shape zw var v finalsize of
              Inl e \<Rightarrow> (Some e, g)
            | Inr (timaxis, timlength, startingshp) \<Rightarrow>
                (case map_of (desired_chunk_shape zw) var of
                   None \<Rightarrow> (Some (KeyError var), g)
                 | Some chunksize \<Rightarrow>
                     and_then
                       (if already_written then
                          write_existing_rootgroup v dataloc var chunksize timlength timaxis
                            (if finalsize \<noteq> None then Some startingshp else None) g
                        else write_new_dataset_rootgroup zw v var chunksize startingshp g)
                       (on_array var (set_array_dimensions (x_dims v))))))"

text \<open>
  \<open>write_to_zarr\<close>. The result is the exception raised or the path returned, and the
  writer with the store as the call left it.
\<close>

definition merge_error :: pyerr where
  "merge_error = ValueError ''write_to_zarr: Unable to merge, time not found in existing data store.''"

definition write_to_zarr ::
  "('b \<Rightarrow> 'a \<Rightarrow> pyerr option \<times> 'a) \<Rightarrow> dataset \<Rightarrow> 'b option \<Rightarrow> nat \<times> nat \<Rightarrow> nat option \<Rightarrow> bool \<Rightarrow>
   'a zarrwrite \<Rightarrow> (pyerr + string) \<times> 'a zarrwrite" where
  "write_to_zarr merge_attrs xarr attrs dataloc finalsize merge zw =
     (case (if merge then check_merge zw xarr else Inr True) of
        Inl e \<Rightarrow> (Inl e, zw)
      | Inr False \<Rightarrow> (Inl merge_error, zw)
      | Inr True \<Rightarrow>
          (case and_then
                  (and_then
                     (if finalsize \<noteq> None then correct_rootgroup_dims xarr zw else (None, zw))
                     (\<lambda>zw1. write_attributes merge_attrs attrs (get_array_names zw1)))
                  (\<lambda>zw2. on_rootgroup
                            (for_each (write_var zw2 dataloc finalsize merge) (build_arraydimensions xarr))
                            zw2) of
             (Some e, zw') \<Rightarrow> (Inl e, zw')
           | (None, zw') \<Rightarrow> (Inr (zarr_path zw'), zw')))"

text \<open>
  \<open>_distrib_zarr_write_convenience\<close>: a fresh \<open>ZarrWrite\<close> on the store, then
  \<open>write_to_zarr\<close>; the store afterwards is the second component.
\<close>

definition distrib_zarr_write_convenience ::
  "('b \<Rightarrow> 'a \<Rightarrow> pyerr option \<times> 'a) \<Rightarrow> string \<Rightarrow> dataset \<Rightarrow> 'b option \<Rightarrow> (string \<times> nat list) list \<Rightarrow>
   nat \<times> nat \<Rightarrow> string \<Rightarrow> nat option \<Rightarrow> bool \<Rightarrow> 'a zgroup \<Rightarrow> (pyerr + string) \<times> 'a zgroup" where
  "distrib_zarr_write_convenience merge_attrs path xarr attrs chunk_shape dataloc app_dim finalsize merge g =
     (case write_to_zarr merge_attrs xarr attrs dataloc finalsize merge
             (ZarrWrite_init path chunk_shape app_dim g) of
        (r, zw') \<Rightarrow> (r, rootgroup zw'))"

section \<open>The function \<open>my_xarr_to_zarr\<close>\<close>

text \<open>
  \<open>validate_merge\<close>: when both the dataset and the group have a \<open>time\<close> array, the first
  time of the dataset must be among the times of the group (\<open>in\<close>: some element compares
  equal).
\<close>

definition validate_merge :: "dataset \<Rightarrow> 'a zgroup \<Rightarrow> pyerr + bool" where
  "validate_merge xarr g =
     (case (map_of xarr ''time'', map_of (rg_arrays g) ''time'') of
        (Some t, Some root_time) \<Rightarrow>
          (case x_first t of
             Inl e \<Rightarrow> Inl e
           | Inr first_time \<Rightarrow> Inr (list_ex (\<lambda>x. np_eq x first_time) (z_values root_time)))
      | _ \<Rightarrow> Inr True)"

text \<open>\<open>np.array_equal\<close>: the same shape and equal elements throughout.\<close>

definition array_equal :: "xvariable \<Rightarrow> zarray \<Rightarrow> bool" where
  "array_equal v a =
     (x_shape v = z_shape a \<and> list_all (\<lambda>idx. np_eq (x_values v idx) (z_data a idx)) (indices_of (x_shape v)))"

text \<open>The fill value zarr gives an array created without one: zero of the dtype.\<close>

definition default_fill :: "dtype \<Rightarrow> scalar" where
  "default_fill dt =
     (if is_floating dt then FloatV (Num 0) else if is_integer dt then IntV 0 else StrV [])"

text \<open>
  The body of the loop of \<open>my_xarr_to_zarr\<close> for one variable. The message of the
  \<open>ValueError\<close> for an inconsistent \<open>sector\<close>, \<open>beam\<close> or \<open>xyz\<close> is built by adding a string
  to an array, which itself raises \<open>TypeError\<close>. An integer \<open>override_chunk_size\<close> is the
  chunk length zarr uses along every dimension.
\<close>

definition my_write_var ::
  "nat \<times> nat \<Rightarrow> string \<Rightarrow> nat option \<Rightarrow> bool \<Rightarrow> nat option \<Rightarrow> string list \<Rightarrow> string \<times> xvariable \<Rightarrow>
   'a zgroup \<Rightarrow> pyerr option \<times> 'a zgroup" where
  "my_write_var dataloc app_dim finalsize merge override_chunk_size existing_arrs entry g =
     (let var = fst entry; v = snd entry
      in if merge \<and> var \<in> {''time'', ''beam'', ''sector''} then (None, g)
         else
           (let chunksize = (case override_chunk_size of
                               Some c \<Rightarrow> replicate (length (x_shape v)) c
                             | None \<Rightarrow> x_shape v)
            in and_then
                 (if var \<in> {''sector'', ''beam'', ''xyz''} then
                    (if var \<in> set existing_arrs then
                       (case get_array g var of
                          Inl e \<Rightarrow> (Some e, g)
                        | Inr a \<Rightarrow> if \<not> array_equal v a then (Some TypeError, g) else (None, g))
                     else
                       (None, put_array var
                          \<lparr>z_shape = x_shape v, z_chunks = x_shape v, z_dtype = x_dtype v,
                           z_fill_value = Some (default_fill (x_dtype v)),
                           z_array_dimensions = None, z_data = x_values v\<rparr> g))
                  else
                    (case index_of app_dim (x_dims v) of
                       None \<Rightarrow> (Some (KeyError app_dim), g)
                     | Some time_pos \<Rightarrow>
                         if length (x_shape v) \<le> time_pos then (Some IndexError, g)
                         else
                           (let timlength = x_shape v ! time_pos
                            in case index_of timlength (x_shape v) of
                                 None \<Rightarrow> (Some (ValueError ''tuple.index(x): x not in tuple''), g)
                               | Some timaxis \<Rightarrow>
                                   if var \<in> set existing_arrs then
                                     (let stop = (if int timlength \<noteq> int (snd dataloc) - int (fst dataloc)
                                                  then fst dataloc + timlength else snd dataloc);
                                          chunk_idx = map (\<lambda>i. if index_of i (x_shape v) = Some timaxis
                                                                 then (fst dataloc, stop) else (0, i))
                                                        (x_shape v)
                                      in on_array var (zarr_setitem chunk_idx (x_shape v) (x_values v)) g)
                                   else
                                     (let startingshp = map (\<lambda>x. if index_of x (x_shape v) = Some timaxis
                                                                  then finalsize else Some x)
                                                          (x_shape v)
                                      in and_then (create_dataset var (x_shape v) chunksize (x_dtype v) None g)
                                           (\<lambda>g'. and_then
                                                    (on_array var (zarr_setitem [] (x_shape v) (x_values v)) g')
                                                    (on_array var (zarr_resize startingshp)))))))
                 (on_array var (set_array_dimensions (x_dims v)))))"

text \<open>
  \<open>my_xarr_to_zarr\<close> on the group at \<open>outputpth\<close>. The result is the exception raised or
  the value returned (\<open>None\<close> from the bare \<open>return\<close> after a failed \<open>validate_merge\<close>, the
  path otherwise), and the group as the call left it.
\<close>

definition my_xarr_to_zarr ::
  "('b \<Rightarrow> 'a \<Rightarrow> pyerr option \<times> 'a) \<Rightarrow> dataset \<Rightarrow> 'b \<Rightarrow> string \<Rightarrow> nat \<times> nat \<Rightarrow> string \<Rightarrow> nat option \<Rightarrow> bool \<Rightarrow>
   nat option \<Rightarrow> 'a zgroup \<Rightarrow> (pyerr + string option) \<times> 'a zgroup" where
  "my_xarr_to_zarr writeattributes xarr attrs outputpth dataloc app_dim finalsize merge override_chunk_size g =
     (case (if merge then validate_merge xarr g else Inr True) of
        Inl e \<Rightarrow> (Inl e, g)
      | Inr False \<Rightarrow> (Inr None, g)
      | Inr True \<Rightarrow>
          (let existing_arrs = array_keys g
           in case and_then
                     (case writeattributes attrs (rg_attrs g) of (r, merged) \<Rightarrow> (r, g\<lparr>rg_attrs := merged\<rparr>))
                     (for_each (my_write_var dataloc app_dim finalsize merge override_chunk_size existing_arrs)
                        (build_arraydimensions xarr)) of
                (Some e, g') \<Rightarrow> (Inl e, g')
              | (None, g') \<Rightarrow> (Inr (Some outputpth), g')))"


section \<open>Example stores and batches\<close>

text \<open>
  Small concrete arrays for the worked inputs below: an attribute merger that writes
  nothing, float arrays and variables given by shape and contents, time coordinates
  given by their list of times, and the \<open>beam\<close> coordinate \<open>0, ..., n - 1\<close>.
\<close>

definition no_attrs :: "unit \<Rightarrow> unit \<Rightarrow> pyerr option \<times> unit" where
  "no_attrs new_attrs old_attrs = (None, old_attrs)"

definition float_array :: "nat list \<Rightarrow> (nat list \<Rightarrow> rat) \<Rightarrow> string list \<Rightarrow> zarray" where
  "float_array shp f ds =
     \<lparr>z_shape = shp, z_chunks = shp, z_dtype = FloatT 64, z_fill_value = Some (FloatV NaN),
      z_array_dimensions = Some ds, z_data = (\<lambda>idx. FloatV (Num (f idx)))\<rparr>"

definition float_variable :: "nat list \<Rightarrow> (nat list \<Rightarrow> rat) \<Rightarrow> string list \<Rightarrow> xvariable" where
  "float_variable shp f ds =
     \<lparr>x_dims = ds, x_shape = shp, x_dtype = FloatT 64, x_values = (\<lambda>idx. FloatV (Num (f idx)))\<rparr>"

definition time_array :: "rat list \<Rightarrow> zarray" where
  "time_array ts = float_array [length ts] (\<lambda>idx. ts ! hd idx) [''time'']"

definition time_variable :: "rat list \<Rightarrow> xvariable" where
  "time_variable ts = float_variable [length ts] (\<lambda>idx. ts ! hd idx) [''time'']"



section \<open>Properties of the gap detector\<close>

lemma split_loop_stable:
  "find_gaps_split dgs exs = dgs \<Longrightarrow> split_loop dgs exs = Some dgs"
  by (subst split_loop.simps) simp

lemma split_loop_step:
  "find_gaps_split dgs exs \<noteq> dgs \<Longrightarrow> split_loop dgs exs = split_loop (find_gaps_split dgs exs) exs"
  by (subst split_loop.simps) simp

text \<open>
  C7. The claim: when the candidate starts more than \<open>max_gap\<close> after the reference, a
  leading gap \<open>[reference minimum, candidate minimum]\<close> is part of the result and nothing is
  raised. On the code, reference times \<open>0..5\<close> and candidate times \<open>3, 4, 5\<close> with
  \<open>max_gap = 1\<close> meet the condition, and the call ends in the \<open>TypeError\<close> of the
  one-argument \<open>insert\<close>.
\<close>

theorem C7_leading_gap_raises:
  "compare_and_find_gaps [0, 1, 2, 3, 4, 5] [3, 4, 5] 1 = Some (Inl TypeError)"
  by (simp add: compare_and_find_gaps_def)

text \<open>
  C8. The claim: no returned interval lies fully inside a reference gap. On the code,
  the reference times \<open>0, 10\<close> have the gap \<open>[0, 10]\<close>; the candidate times \<open>0, 5, 10\<close> have the
  gaps \<open>[0, 5]\<close> and \<open>[5, 10]\<close>, both inside it, and both are returned: the \<open>continue\<close> only
  leaves the inner loop's iteration, and the \<open>append\<close> after the loop still runs.
\<close>

theorem C8_contained_gap_kept:
  "compare_and_find_gaps [0, 10] [0, 5, 10] 1 = Some (Inr [(0, 5), (5, 10)])"
proof -
  have "find_gaps_split [(0, 5), (5, 10)] [(0, 10)] = [(0, 5), (5, 10 :: rat)]"
    by (simp add: find_gaps_split_def)
  then have "split_loop [(0, 5), (5, 10)] [(0, 10)] = Some [(0, 5), (5, 10)]"
    by (rule split_loop_stable)
  then show ?thesis
    by (simp add: compare_and_find_gaps_def)
qed

section \<open>Properties of the ragged-beam helpers\<close>

lemma where_hits: "np_where_notnan rws = (map fst (hits rws), map snd (hits rws))"
  by (simp add: np_where_notnan_def hits_def Let_def)

lemma zip_fst_snd: "zip (map fst ps) (map snd ps) = ps"
  by (induction ps) auto

lemma filter_by_index:
  "filter P xs = map (\<lambda>j. xs ! j) (filter (\<lambda>j. P (xs ! j)) [0..<length xs])"
proof -
  have "filter P xs = filter P (map (\<lambda>j. xs ! j) [0..<length xs])"
    by (simp add: map_nth)
  also have "\<dots> = map (\<lambda>j. xs ! j) (filter (\<lambda>j. P (xs ! j)) [0..<length xs])"
    by (simp add: filter_map comp_def)
  finally show ?thesis .
qed

lemma stacked_by_hits:
  "filter (\<lambda>v. \<not> isnan v) (concat rws) = map (\<lambda>c. rws ! fst c ! snd c) (hits rws)"
proof -
  have "filter (\<lambda>v. \<not> isnan v) (concat rws)
        = concat (map (filter (\<lambda>v. \<not> isnan v)) (map (\<lambda>i. rws ! i) [0..<length rws]))"
    by (simp add: filter_concat map_nth)
  also have "\<dots> = concat (map (\<lambda>i. filter (\<lambda>v. \<not> isnan v) (rws ! i)) [0..<length rws])"
    by (simp add: comp_def)
  also have "\<dots> = concat (map (\<lambda>i. map (\<lambda>j. rws ! i ! j)
                 (filter (\<lambda>j. \<not> isnan (rws ! i ! j)) [0..<length (rws ! i)])) [0..<length rws])"
    by (subst filter_by_index) simp
  also have "\<dots> = map (\<lambda>c. rws ! fst c ! snd c) (hits rws)"
    by (simp add: hits_def map_concat comp_def)
  finally show ?thesis .
qed

lemma set_hits:
  "set (hits rws) = {(i, j). i < length rws \<and> j < length (rws ! i) \<and> \<not> isnan (rws ! i ! j)}"
  by (auto simp: hits_def)

lemma length_fold_set_cell: "length (fold set_cell as arr) = length arr"
  by (induction as arbitrary: arr) (auto simp: set_cell_def)

lemma length_row_set_cell: "length (set_cell a arr ! i) = length (arr ! i)"
proof (cases "fst (fst a) = i")
  case True
  then show ?thesis
    by (cases "i < length arr") (simp_all add: set_cell_def list_update_beyond)
next
  case False
  then show ?thesis by (simp add: set_cell_def)
qed

lemma length_row_fold_set_cell: "length (fold set_cell as arr ! i) = length (arr ! i)"
proof (induction as arbitrary: arr)
  case Nil
  then show ?case by simp
next
  case (Cons a as)
  have "length (set_cell a arr ! i) = length (arr ! i)"
    by (rule length_row_set_cell)
  with Cons show ?case by simp
qed

lemma fold_set_cell_nth:
  assumes "i < length arr" "j < length (arr ! i)"
  shows "fold set_cell (map (\<lambda>c. (c, f c)) cs) arr ! i ! j
         = (if (i, j) \<in> set cs then f (i, j) else arr ! i ! j)"
  using assms
proof (induction cs arbitrary: arr)
  case Nil
  then show ?case by simp
next
  case (Cons c cs)
  let ?arr' = "set_cell (c, f c) arr"
  have len: "i < length ?arr'" "j < length (?arr' ! i)"
    using Cons.prems by (simp_all add: length_row_set_cell) (simp add: set_cell_def)
  have step: "?arr' ! i ! j = (if c = (i, j) then f c else arr ! i ! j)"
  proof (cases "fst c = i")
    case True
    then show ?thesis
      using Cons.prems by (cases c) (auto simp: set_cell_def nth_list_update)
  next
    case False
    then show ?thesis
      by (cases c) (auto simp: set_cell_def)
  qed
  have "fold set_cell (map (\<lambda>c. (c, f c)) (c # cs)) arr ! i ! j
        = fold set_cell (map (\<lambda>c. (c, f c)) cs) ?arr' ! i ! j"
    by simp
  also have "\<dots> = (if (i, j) \<in> set cs then f (i, j) else ?arr' ! i ! j)"
    using Cons.IH [OF len] .
  also have "\<dots> = (if (i, j) \<in> set (c # cs) then f (i, j) else arr ! i ! j)"
    using step by auto
  finally show ?case .
qed

lemma zip_map_self: "zip cs (map f cs) = map (\<lambda>c. (c, f c)) cs"
  by (induction cs) auto

lemma scatter_hits:
  assumes "length rws = t" "list_all (\<lambda>r. length r = b) rws"
  shows "fold set_cell (zip (hits rws) (map (\<lambda>c. rws ! fst c ! snd c) (hits rws)))
           (replicate t (replicate b NaN)) = rws"
proof (rule nth_equalityI)
  let ?res = "fold set_cell (zip (hits rws) (map (\<lambda>c. rws ! fst c ! snd c) (hits rws)))
           (replicate t (replicate b NaN))"
  show "length ?res = length rws"
    using assms by (simp add: length_fold_set_cell)
  fix i assume "i < length ?res"
  then have i: "i < t" by (simp add: length_fold_set_cell)
  then have rowlen: "length (rws ! i) = b"
    using assms by (simp add: list_all_length)
  show "?res ! i = rws ! i"
  proof (rule nth_equalityI)
    show "length (?res ! i) = length (rws ! i)"
      using i rowlen by (simp add: length_row_fold_set_cell)
    fix j assume "j < length (?res ! i)"
    then have j: "j < b" using i by (simp add: length_row_fold_set_cell)
    have "?res ! i ! j = (if (i, j) \<in> set (hits rws) then rws ! i ! j
                          else replicate t (replicate b NaN) ! i ! j)"
      unfolding zip_map_self using i j
      by (subst fold_set_cell_nth) auto
    also have "\<dots> = rws ! i ! j"
      using i j rowlen assms(1) by (cases "rws ! i ! j") (auto simp: set_hits)
    finally show "?res ! i ! j = rws ! i ! j" .
  qed
qed

lemma hits_in_bounds:
  assumes "length rws = t" "list_all (\<lambda>r. length r = b) rws"
  shows "list_all (\<lambda>c. fst c < t \<and> snd c < b) (hits rws)"
  using assms by (auto simp: list_all_iff set_hits)

text \<open>
  C9. For a well-formed two-dimensional array (as many rows as the shape says, every row
  as long as the shape says), \<open>reform_nan_array\<close> applied to the two results of
  \<open>stack_nan_array\<close> and the array's shape returns the array itself: every position holds
  its original value, NaN where the array had NaN.
\<close>

theorem C9_stack_reform_roundtrip:
  assumes "wf_dataarray2 a"
  shows "reform_nan_array (snd (stack_nan_array a)) (fst (stack_nan_array a)) (da_shape a) = Inr a"
proof -
  obtain t b where shp: "da_shape a = (t, b)" by (cases "da_shape a")
  have wf: "length (da_values a) = t" "list_all (\<lambda>r. length r = b) (da_values a)"
    using assms shp by (simp_all add: wf_dataarray2_def)
  let ?h = "hits (da_values a)"
  have idx: "fst (stack_nan_array a) = (map fst ?h, map snd ?h)"
    by (simp add: stack_nan_array_def where_hits Let_def)
  have st: "snd (stack_nan_array a) = map (\<lambda>c. da_values a ! fst c ! snd c) ?h"
    by (simp add: stack_nan_array_def Let_def stacked_by_hits)
  have bp: "broadcast_pair (map fst ?h) (map snd ?h) = Some ?h"
    by (simp add: broadcast_pair_def zip_fst_snd)
  have bt: "broadcast_to (length ?h) (map (\<lambda>c. da_values a ! fst c ! snd c) ?h)
            = Some (map (\<lambda>c. da_values a ! fst c ! snd c) ?h)"
    by (simp add: broadcast_to_def)
  have inb: "list_all (\<lambda>c. fst c < t \<and> snd c < b) ?h"
    using wf by (rule hits_in_bounds)
  have sc: "fold set_cell (zip ?h (map (\<lambda>c. da_values a ! fst c ! snd c) ?h))
              (replicate t (replicate b NaN)) = da_values a"
    using wf by (rule scatter_hits)
  show ?thesis
    unfolding reform_nan_array_def idx st
    using bp bt inb sc shp by (simp add: Let_def)
qed

theorem C9_stack_reform_roundtrip_witness:
  "wf_dataarray2 \<lparr>da_shape = (2, 3), da_values = [[Num (1::int), NaN, Num 3], [NaN, NaN, Num 6]]\<rparr> \<and>
   stack_nan_array \<lparr>da_shape = (2, 3), da_values = [[Num (1::int), NaN, Num 3], [NaN, NaN, Num 6]]\<rparr>
     = (([0, 0, 1], [0, 2, 2]), [Num 1, Num 3, Num 6]) \<and>
   reform_nan_array [Num 1, Num 3, Num 6] ([0, 0, 1], [0, 2, 2]) (2, 3)
     = Inr \<lparr>da_shape = (2, 3), da_values = [[Num (1::int), NaN, Num 3], [NaN, NaN, Num 6]]\<rparr>"
proof -
  let ?a = "\<lparr>da_shape = (2, 3), da_values = [[Num (1::int), NaN, Num 3], [NaN, NaN, Num 6]]\<rparr>"
  have wf: "wf_dataarray2 ?a"
    by (simp add: wf_dataarray2_def)
  have st: "stack_nan_array ?a = (([0, 0, 1], [0, 2, 2]), [Num 1, Num 3, Num 6])"
    by code_simp
  show ?thesis
    using wf st C9_stack_reform_roundtrip [OF wf] by simp
qed

section \<open>Properties of the store writer\<close>

lemma and_then_None [simp]: "and_then (None, s) f = f s"
  by (simp add: and_then_def)

lemma and_then_Some [simp]: "and_then (Some e, s) f = (Some e, s)"
  by (simp add: and_then_def)


text \<open>
  C10. When the dataset and the store both have a \<open>time\<close> array and the first time of the
  dataset is not among the times of the store, \<open>my_xarr_to_zarr\<close> with \<open>merge=True\<close> raises
  nothing and returns \<open>None\<close>, and the store is exactly what it was: no array is created
  or written, and the attribute writer is not called.
\<close>

theorem C10_failed_merge_validation_leaves_store:
  assumes "map_of xarr ''time'' = Some t"
    and "x_first t = Inr first_time"
    and "map_of (rg_arrays g) ''time'' = Some root_time"
    and "\<not> list_ex (\<lambda>x. np_eq x first_time) (z_values root_time)"
  shows "my_xarr_to_zarr writeattributes xarr attrs outputpth dataloc app_dim finalsize True
           override_chunk_size g = (Inr None, g)"
  using assms by (simp add: my_xarr_to_zarr_def validate_merge_def)

theorem C10_failed_merge_validation_leaves_store_witness:
  "map_of [(''time'', time_variable [5, 6]), (''y'', time_variable [1, 2])] ''time''
     = Some (time_variable [5, 6]) \<and>
   x_first (time_variable [5, 6]) = Inr (FloatV (Num 5)) \<and>
   z_values (time_array [0, 10]) = [FloatV (Num 0), FloatV (Num 10)] \<and>
   my_xarr_to_zarr no_attrs [(''time'', time_variable [5, 6]), (''y'', time_variable [1, 2])] ()
     ''p'' (0, 2) ''time'' None True None \<lparr>rg_arrays = [(''time'', time_array [0, 10])], rg_attrs = ()\<rparr>
     = (Inr None, \<lparr>rg_arrays = [(''time'', time_array [0, 10])], rg_attrs = ()\<rparr>)"
proof -
  let ?xarr = "[(''time'', time_variable [5, 6]), (''y'', time_variable [1, 2])]"
  let ?g = "\<lparr>rg_arrays = [(''time'', time_array [0, 10])], rg_attrs = ()\<rparr>"
  have t: "map_of ?xarr ''time'' = Some (time_variable [5, 6])"
    by simp
  have f: "x_first (time_variable [5, 6]) = Inr (FloatV (Num 5))"
    by code_simp
  have r: "map_of (rg_arrays ?g) ''time'' = Some (time_array [0, 10])"
    by simp
  have vs: "z_values (time_array [0, 10]) = [FloatV (Num 0), FloatV (Num 10)]"
    by code_simp
  have n: "\<not> list_ex (\<lambda>x. np_eq x (FloatV (Num 5))) (z_values (time_array [0, 10]))"
    by code_simp
  show ?thesis
    using t f vs C10_failed_merge_validation_leaves_store [OF t f r n] by simp
qed

lemma on_rootgroup_fst: "fst (on_rootgroup step zw) = fst (step (rootgroup zw))"
  by (simp add: on_rootgroup_def split: prod.splits)
































lemma map_of_put_array:
  "map_of (rg_arrays (put_array n a g)) = (map_of (rg_arrays g))(n \<mapsto> a)"
  by (simp add: put_array_def update_conv')


lemma set_array_keys_put_array:
  "set (array_keys (put_array n a g)) = insert n (set (array_keys g))"
  by (auto simp: put_array_def array_keys_def update_keys)




lemma on_array_frame:
  assumes "on_array n op g = (r, g')" "m \<noteq> n"
  shows "map_of (rg_arrays g') m = map_of (rg_arrays g) m"
  using assms by (auto simp: on_array_def map_of_put_array split: sum.splits)



















































end
